theory Spec2Isabelle
  imports Complex_Main "HOL-Library.Word"
begin

section \<open>The viewer's camera (code/3rd_QGLViewer/QGLViewer/camera.h)\<close>

text \<open>
  The class \<open>qglviewer::Camera\<close> is embedded as a record of its private data members
  (camera.h, lines 520 to 545). A member \<open>name_\<close> of the class is the field \<open>name_f\<close>
  of the record, since an Isabelle name cannot end with an underscore; the accessors keep
  their C++ names.

  \<^item> \<open>qreal\<close> (a double) is read in two ways. The functions of the field of view and
    \<open>aspectRatio\<close> are over \<open>real\<close>: the arithmetic is exact, there is no rounding, no
    infinity and no NaN; where the C++ division by zero would give an infinity or a NaN,
    HOL gives 0, and the theorem on them assumes the divisor is not zero. \<open>setAspectRatio\<close>
    and \<open>aspectRatio_binary64\<close> are in double precision: a \<open>qreal\<close> is a real that IEEE
    754 binary64 represents, and the product and the quotient they compute are rounded to
    binary64 (round to nearest, ties to even); a result that is not a finite double is
    \<open>None\<close>.
  \<^item> \<open>int\<close> is a 32-bit two's complement word, read with \<open>sint\<close>.
  \<^item> a pointer is an address (a natural number); \<open>Vec\<close> is a triple of reals; the two
    buffered 4x4 matrices are lists of reals; the \<open>QMap\<close> of key frame interpolators is
    a partial map from path index to address.
\<close>

type_synonym qreal = real
type_synonym cpp_int = "32 word"
type_synonym addr = nat
type_synonym Vec = "qreal \<times> qreal \<times> qreal"

datatype Type = PERSPECTIVE | ORTHOGRAPHIC

record Camera =
  frame_f :: addr
  screenWidth_f :: cpp_int
  screenHeight_f :: cpp_int
  fieldOfView_f :: qreal
  sceneCenter_f :: Vec
  sceneRadius_f :: qreal
  zNearCoef_f :: qreal
  zClippingCoef_f :: qreal
  orthoCoef_f :: qreal
  devicePixelRatio_f :: qreal
  type_f :: Type
  modelViewMatrix_f :: "qreal list"
  modelViewMatrixIsUpToDate_f :: bool
  projectionMatrix_f :: "qreal list"
  projectionMatrixIsUpToDate_f :: bool
  IODistance_f :: qreal
  focusDistance_f :: qreal
  physicalScreenWidth_f :: qreal
  kfi_f :: "nat \<rightharpoonup> addr"
  interpolationKfi_f :: addr

subsection \<open>Accessors\<close>

definition fieldOfView :: "Camera \<Rightarrow> qreal" where
  "fieldOfView c = fieldOfView_f c"

definition screenWidth :: "Camera \<Rightarrow> cpp_int" where
  "screenWidth c = screenWidth_f c"

definition screenHeight :: "Camera \<Rightarrow> cpp_int" where
  "screenHeight c = screenHeight_f c"

text \<open>
  \<^verbatim>\<open>return screenWidth_ / static_cast<qreal>(screenHeight_);\<close>
  Both integers are converted to \<open>qreal\<close> before the division.
\<close>

definition aspectRatio :: "Camera \<Rightarrow> qreal" where
  "aspectRatio c = real_of_int (sint (screenWidth_f c)) / real_of_int (sint (screenHeight_f c))"

text \<open>\<^verbatim>\<open>return 2.0 * atan(tan(fieldOfView() / 2.0) * aspectRatio());\<close>\<close>

definition horizontalFieldOfView :: "Camera \<Rightarrow> qreal" where
  "horizontalFieldOfView c = 2 * arctan (tan (fieldOfView c / 2) * aspectRatio c)"

definition zNearCoefficient :: "Camera \<Rightarrow> qreal" where
  "zNearCoefficient c = zNearCoef_f c"

definition zClippingCoefficient :: "Camera \<Rightarrow> qreal" where
  "zClippingCoefficient c = zClippingCoef_f c"

subsection \<open>Setters defined in the header\<close>

text \<open>
  \<open>setFieldOfView\<close> and \<open>setScreenWidthAndHeight\<close> are declared in camera.h and defined
  in a file that is not among the sources. The two inline setters that call them take the
  callee as their first argument.

  \<^verbatim>\<open>setFieldOfView(2.0 * atan(tan(hfov / 2.0) / aspectRatio()));\<close>
\<close>

definition setHorizontalFieldOfView ::
  "(Camera \<Rightarrow> qreal \<Rightarrow> Camera) \<Rightarrow> Camera \<Rightarrow> qreal \<Rightarrow> Camera" where
  "setHorizontalFieldOfView setFieldOfView c hfov =
     setFieldOfView c (2 * arctan (tan (hfov / 2) / aspectRatio c))"

subsection \<open>Double precision\<close>

text \<open>
  Rounding of a real number to the nearest integer, a tie going to the even one.
\<close>

definition round_half_even :: "real \<Rightarrow> int" where
  "round_half_even q =
     (if q - of_int \<lfloor>q\<rfloor> < 1 / 2 then \<lfloor>q\<rfloor>
      else if 1 / 2 < q - of_int \<lfloor>q\<rfloor> then \<lfloor>q\<rfloor> + 1
      else if even \<lfloor>q\<rfloor> then \<lfloor>q\<rfloor> else \<lfloor>q\<rfloor> + 1)"

text \<open>
  IEEE 754 binary64: 53 significant bits, exponents from -1022 (below it the numbers are
  subnormal and keep the spacing of exponent -1022) to 1023. The spacing of the doubles
  around \<open>x\<close> is \<open>binary64_ulp x\<close>; \<open>round_binary64 x\<close> is the double nearest to \<open>x\<close>
  (ties to even), or \<open>None\<close> when the rounded magnitude reaches \<open>2 ^ 1024\<close>, where
  the machine result is an infinity.
\<close>

definition binary64_exponent :: "real \<Rightarrow> int" where
  "binary64_exponent x = max \<lfloor>log 2 \<bar>x\<bar>\<rfloor> (- 1022)"

definition binary64_ulp :: "real \<Rightarrow> real" where
  "binary64_ulp x = 2 powi (binary64_exponent x - 52)"

definition round_binary64 :: "real \<Rightarrow> real option" where
  "round_binary64 x =
     (if x = 0 then Some 0
      else let r = of_int (round_half_even (x / binary64_ulp x)) * binary64_ulp x
           in if \<bar>r\<bar> < 2 ^ 1024 then Some r else None)"

definition is_binary64 :: "real \<Rightarrow> bool" where
  "is_binary64 x = (round_binary64 x = Some x)"

text \<open>
  The product and the quotient of two doubles, as the machine computes them: the exact
  result, rounded. A division by zero gives an infinity or a NaN: \<open>None\<close>.
\<close>

definition mul_binary64 :: "real \<Rightarrow> real \<Rightarrow> real option" where
  "mul_binary64 x y = round_binary64 (x * y)"

definition div_binary64 :: "real \<Rightarrow> real \<Rightarrow> real option" where
  "div_binary64 x y = (if y = 0 then None else round_binary64 (x / y))"

text \<open>
  \<^verbatim>\<open>return screenWidth_ / static_cast<qreal>(screenHeight_);\<close>
  in double precision: both integers convert exactly, the division rounds.
\<close>

definition aspectRatio_binary64 :: "Camera \<Rightarrow> qreal option" where
  "aspectRatio_binary64 c =
     div_binary64 (real_of_int (sint (screenWidth_f c))) (real_of_int (sint (screenHeight_f c)))"

text \<open>
  The conversion \<open>int(x)\<close> of a floating point value discards the fractional part
  (rounds towards zero). When the truncated value cannot be represented in \<open>int\<close> the
  behaviour of the C++ program is undefined: the model returns \<open>None\<close>.
\<close>

definition cpp_trunc :: "qreal \<Rightarrow> int" where
  "cpp_trunc x = (if 0 \<le> x then \<lfloor>x\<rfloor> else \<lceil>x\<rceil>)"

definition int_of_qreal :: "qreal \<Rightarrow> cpp_int option" where
  "int_of_qreal x =
     (if - (2 ^ 31) \<le> cpp_trunc x \<and> cpp_trunc x < 2 ^ 31
      then Some (word_of_int (cpp_trunc x)) else None)"

text \<open>
  \<^verbatim>\<open>setScreenWidthAndHeight(int(100.0 * aspect), 100);\<close>
  The product is a double product: it is rounded to binary64 before \<open>int\<close> truncates
  it. The result is \<open>None\<close> when the product is not a finite double or its truncation
  does not fit in \<open>int\<close> (undefined behaviour).
\<close>

definition setAspectRatio ::
  "(Camera \<Rightarrow> cpp_int \<Rightarrow> cpp_int \<Rightarrow> Camera) \<Rightarrow> Camera \<Rightarrow> qreal \<Rightarrow> Camera option" where
  "setAspectRatio setScreenWidthAndHeight c aspect =
     (case mul_binary64 100 aspect of
        None \<Rightarrow> None
      | Some p \<Rightarrow>
          (case int_of_qreal p of
             None \<Rightarrow> None
           | Some w \<Rightarrow> Some (setScreenWidthAndHeight c w 100)))"

text \<open>\<^verbatim>\<open>zNearCoef_ = coef; projectionMatrixIsUpToDate_ = false;\<close>\<close>

definition setZNearCoefficient :: "Camera \<Rightarrow> qreal \<Rightarrow> Camera" where
  "setZNearCoefficient c coef =
     c\<lparr>zNearCoef_f := coef, projectionMatrixIsUpToDate_f := False\<rparr>"

text \<open>\<^verbatim>\<open>zClippingCoef_ = coef; projectionMatrixIsUpToDate_ = false;\<close>\<close>

definition setZClippingCoefficient :: "Camera \<Rightarrow> qreal \<Rightarrow> Camera" where
  "setZClippingCoefficient c coef =
     c\<lparr>zClippingCoef_f := coef, projectionMatrixIsUpToDate_f := False\<rparr>"

subsection \<open>The two setters that are only declared\<close>

text \<open>
  What the header documents about the two absent setters, as predicates on a candidate
  implementation: \<open>fieldOfView()\<close> is "set using setFieldOfView()", \<open>screenWidth()\<close> and
  \<open>screenHeight()\<close> are "set using setScreenWidthAndHeight()" (camera.h, lines 146 to 187),
  and neither setter is documented to touch the other's fields.
\<close>

definition stores_fieldOfView :: "(Camera \<Rightarrow> qreal \<Rightarrow> Camera) \<Rightarrow> bool" where
  "stores_fieldOfView setFieldOfView =
     (\<forall>c fov. fieldOfView_f (setFieldOfView c fov) = fov
        \<and> screenWidth_f (setFieldOfView c fov) = screenWidth_f c
        \<and> screenHeight_f (setFieldOfView c fov) = screenHeight_f c)"

definition stores_screenWidthAndHeight ::
  "(Camera \<Rightarrow> cpp_int \<Rightarrow> cpp_int \<Rightarrow> Camera) \<Rightarrow> bool" where
  "stores_screenWidthAndHeight setScreenWidthAndHeight =
     (\<forall>c w h. screenWidth_f (setScreenWidthAndHeight c w h) = w
        \<and> screenHeight_f (setScreenWidthAndHeight c w h) = h)"

text \<open>
  Modelled from the spec: the body of \<open>Camera::setFieldOfView\<close> is missing from the
  sources. This instance follows the header's documentation: the field of view is stored,
  and \<open>focusDistance()\<close> "is set to sceneRadius() / tan(fieldOfView()/2)" (camera.h, lines
  482 to 485).
\<close>

definition setFieldOfView_doc :: "Camera \<Rightarrow> qreal \<Rightarrow> Camera" where
  "setFieldOfView_doc c fov =
     c\<lparr>fieldOfView_f := fov, focusDistance_f := sceneRadius_f c / tan (fov / 2)\<rparr>"

text \<open>
  Modelled from the spec: the body of \<open>Camera::setScreenWidthAndHeight\<close> is missing from
  the sources. This instance stores the two arguments, as the documentation of
  \<open>screenWidth()\<close> and \<open>screenHeight()\<close> says.
\<close>

definition setScreenWidthAndHeight_doc :: "Camera \<Rightarrow> cpp_int \<Rightarrow> cpp_int \<Rightarrow> Camera" where
  "setScreenWidthAndHeight_doc c w h = c\<lparr>screenWidth_f := w, screenHeight_f := h\<rparr>"

text \<open>
  A camera with the default values the header documents (field of view \<open>pi/4\<close>, near
  coefficient 0.005, clipping coefficient \<open>sqrt 3\<close>, inter-ocular distance 0.062, physical
  screen width 0.5, pixel ratio 1), a 600 by 400 screen, and the scene at the origin.
\<close>

definition camera0 :: Camera where
  "camera0 = \<lparr>frame_f = 1, screenWidth_f = 600, screenHeight_f = 400,
     fieldOfView_f = pi / 4, sceneCenter_f = (0, 0, 0), sceneRadius_f = 1,
     zNearCoef_f = 5 / 1000, zClippingCoef_f = sqrt 3, orthoCoef_f = tan (pi / 8),
     devicePixelRatio_f = 1, type_f = PERSPECTIVE,
     modelViewMatrix_f = replicate 16 0, modelViewMatrixIsUpToDate_f = False,
     projectionMatrix_f = replicate 16 0, projectionMatrixIsUpToDate_f = True,
     IODistance_f = 62 / 1000, focusDistance_f = 1 / tan (pi / 8),
     physicalScreenWidth_f = 1 / 2, kfi_f = Map.empty, interpolationKfi_f = 2\<rparr>"

text \<open>
  Three doubles: the one nearest to 0.35 (\<open>0x1.6666666666666p-2\<close>), the next double
  above it, and the one nearest to 4/3 (\<open>0x1.5555555555555p+0\<close>).
\<close>

definition double_0_35 :: qreal where
  "double_0_35 = 3152519739159347 / 2 ^ 53"

definition double_0_35_next :: qreal where
  "double_0_35_next = 6305039478318695 / 2 ^ 54"

definition double_4_3 :: qreal where
  "double_4_3 = 6004799503160661 / 2 ^ 52"

section \<open>Face selection (specification, sections 3, 4.3, 6 and 7)\<close>

text \<open>
  The face selection solver (\<open>code/method/face_selection.cpp\<close>, named by the build
  file of \<open>code/method\<close>) is not among the sources. The definitions of this section are
  written from the specification; each one says which sentences it follows.
\<close>

subsection \<open>Data model\<close>

text \<open>
  Modelled from the spec: the vertex of section 3, "an exact point", missing with
  face_selection.cpp; exact coordinates are rationals.
\<close>

type_synonym exact_point = "rat \<times> rat \<times> rat"

text \<open>
  Modelled from the spec: the candidate face of section 3, missing with
  face_selection.cpp. A face lies on one supporting plane (its index), has an ordered
  boundary of vertices (indices into the vertex array), a support score, a confidence
  score and an area; \<open>f_bbox\<close> marks a bounding-box face (section 4.3, constraint 3).
\<close>

record candidate_face =
  f_plane :: nat
  f_boundary :: "nat list"
  f_supp :: real
  f_conf :: real
  f_area :: real
  f_bbox :: bool

text \<open>
  Modelled from the spec: the candidate edge of section 3, missing with
  face_selection.cpp. An edge is keyed by its pair of endpoints and records the
  candidate faces incident to it, by index (section 9, "the only backward link needed at
  solve time is edge to incident face indices").
\<close>

record candidate_edge =
  e_endpoints :: "nat \<times> nat"
  e_incident :: "nat list"

text \<open>
  Modelled from the spec: the hypothesis graph \<open>H = (V, E, F)\<close> of section 3, missing with
  face_selection.cpp, as three flat arrays (section 9), together with \<open>area_total\<close>, the
  total area of the alpha-shape meshes of all segments (section 4.3).
\<close>

record hypothesis_graph =
  h_vertices :: "exact_point list"
  h_edges :: "candidate_edge list"
  h_faces :: "candidate_face list"
  h_area_total :: real

text \<open>
  Modelled from the spec: the coverage term of a face, missing with face_selection.cpp;
  section 4.2, "cov(f) = conf(f) * area(f)".
\<close>

definition cov :: "candidate_face \<Rightarrow> real" where
  "cov f = f_conf f * f_area f"

text \<open>
  Modelled from the spec: the configuration of section 6.4, missing with
  face_selection.cpp.
\<close>

record config =
  fit_weight :: real
  coverage_weight :: real
  complexity_weight :: real
  alpha_scale :: real
  residual_tolerance :: real
  bbox_margin :: real
  include_bbox_faces :: bool
  solver_time_limit_seconds :: real
  solver_gap :: real

text \<open>
  Modelled from the spec: the ranges section 6.4 gives for the configuration, missing with
  face_selection.cpp; "three weights must sum to 1".
\<close>

definition valid_config :: "config \<Rightarrow> bool" where
  "valid_config cfg =
     (0 \<le> fit_weight cfg \<and> fit_weight cfg \<le> 1
      \<and> 0 \<le> coverage_weight cfg \<and> coverage_weight cfg \<le> 1
      \<and> 0 \<le> complexity_weight cfg \<and> complexity_weight cfg \<le> 1
      \<and> fit_weight cfg + coverage_weight cfg + complexity_weight cfg = 1
      \<and> 0 < alpha_scale cfg \<and> 0 < residual_tolerance cfg
      \<and> 0 \<le> bbox_margin cfg \<and> bbox_margin cfg \<le> 1
      \<and> 0 \<le> solver_time_limit_seconds cfg
      \<and> 0 \<le> solver_gap cfg \<and> solver_gap cfg \<le> 1)"

text \<open>
  Modelled from the spec: the defaults of section 6.4, missing with face_selection.cpp.
  The default residual tolerance is three times the average point spacing, which is an
  argument here.
\<close>

definition default_config :: "real \<Rightarrow> config" where
  "default_config spacing =
     \<lparr>fit_weight = 43 / 100, coverage_weight = 27 / 100, complexity_weight = 30 / 100,
      alpha_scale = 5, residual_tolerance = 3 * spacing, bbox_margin = 5 / 100,
      include_bbox_faces = False, solver_time_limit_seconds = 0, solver_gap = 0\<rparr>"

subsection \<open>The binary program\<close>

text \<open>
  Modelled from the spec: the variables of section 4.3, missing with face_selection.cpp:
  \<open>X f\<close> is the selection variable of face \<open>f\<close>, \<open>Z e\<close> the auxiliary variable of the
  manifold row of edge \<open>e\<close>, \<open>Y e\<close> the sharp-edge variable of edge \<open>e\<close>. An assignment
  gives every variable an integer value.
\<close>

datatype var = X nat | Z nat | Y nat

type_synonym assignment = "var \<Rightarrow> int"

text \<open>Modelled from the spec: the variable kinds and solver statuses of section 6.3.\<close>

datatype var_kind = Binary | Integer

datatype status = Optimal | Feasible_gap_reached | Time_limit | Infeasible | Solver_error

text \<open>
  Modelled from the spec: the three constraint families of section 4.3, missing with
  face_selection.cpp.
  \<^item> \<open>Manifold e fs\<close>: the row "sum of x_f over the faces incident to e, minus 2 z_e, is 0".
  \<^item> \<open>Sharp_link e fps\<close>: "y_e = 1 iff exactly two faces are selected and they lie on
    different planes"; \<open>fps\<close> lists the incident faces with their plane indices. The spec
    leaves the rows of this link to a "standard MIP linearization"; the model keeps the
    condition that those rows encode.
  \<^item> \<open>Forbidden f\<close>: "x_f = 0 forced".
\<close>

datatype constraint =
    Manifold nat "nat list"
  | Sharp_link nat "(nat \<times> nat) list"
  | Forbidden nat

text \<open>
  Modelled from the spec: what is handed to the solver (section 6.3), missing with
  face_selection.cpp: the variables with their kinds, the constraints, and the objective
  to minimise.
\<close>

record binary_program =
  variables :: "(var \<times> var_kind) list"
  constraints :: "constraint list"
  minimise :: "assignment \<Rightarrow> real option"

text \<open>
  Modelled from the spec: the faces incident to an edge with the planes they lie on
  (section 3), missing with face_selection.cpp.
\<close>

definition incident_planes :: "hypothesis_graph \<Rightarrow> nat \<Rightarrow> (nat \<times> nat) list" where
  "incident_planes H e =
     map (\<lambda>f. (f, f_plane (h_faces H ! f))) (e_incident (h_edges H ! e))"

text \<open>
  Modelled from the spec: the sharp edge of section 3, "incident to at least 2 faces on at
  least 2 distinct supporting planes", missing with face_selection.cpp.
\<close>

definition is_sharp :: "hypothesis_graph \<Rightarrow> nat \<Rightarrow> bool" where
  "is_sharp H e =
     (2 \<le> length (incident_planes H e)
      \<and> 2 \<le> length (remdups (map snd (incident_planes H e))))"

text \<open>
  Modelled from the spec: the sharp edges of a graph, in the order of their identifiers,
  missing with face_selection.cpp.
\<close>

definition sharp_edges :: "hypothesis_graph \<Rightarrow> nat list" where
  "sharp_edges H = filter (is_sharp H) [0 ..< length (h_edges H)]"

text \<open>
  Modelled from the spec: the objective of section 4.3, missing with face_selection.cpp:
  \<open>fit_weight * (1 - sum supp(f) x_f / supp_total)\<close>
  \<open>+ complexity_weight * (sum of y_e over the sharp edges) / (number of sharp edges)\<close>
  \<open>+ coverage_weight * (1 - sum cov(f) x_f / area_total)\<close>,
  with \<open>supp_total\<close> the sum of \<open>supp(f)\<close> over all faces. The four definitions
  that follow are the normaliser and the three terms.
\<close>

definition supp_total :: "hypothesis_graph \<Rightarrow> real" where
  "supp_total H = (\<Sum>f\<leftarrow>h_faces H. f_supp f)"

text \<open>
  Modelled from the spec: the data-fit term of the objective,
  \<open>1 - sum supp(f) x_f / supp_total\<close>, missing with face_selection.cpp.
\<close>

definition fit_term :: "hypothesis_graph \<Rightarrow> assignment \<Rightarrow> real" where
  "fit_term H a =
     1 - (\<Sum>i\<leftarrow>[0 ..< length (h_faces H)]. f_supp (h_faces H ! i) * real_of_int (a (X i)))
         / supp_total H"

text \<open>
  Modelled from the spec: the complexity term of the objective, the sum of \<open>y_e\<close> over
  the sharp edges divided by their number, missing with face_selection.cpp.
\<close>

definition complexity_term :: "hypothesis_graph \<Rightarrow> assignment \<Rightarrow> real" where
  "complexity_term H a =
     (\<Sum>e\<leftarrow>sharp_edges H. real_of_int (a (Y e))) / real (length (sharp_edges H))"

text \<open>
  Modelled from the spec: the coverage term of the objective,
  \<open>1 - sum cov(f) x_f / area_total\<close>, missing with face_selection.cpp.
\<close>

definition coverage_term :: "hypothesis_graph \<Rightarrow> assignment \<Rightarrow> real" where
  "coverage_term H a =
     1 - (\<Sum>i\<leftarrow>[0 ..< length (h_faces H)]. cov (h_faces H ! i) * real_of_int (a (X i)))
         / h_area_total H"

text \<open>
  Modelled from the spec: the weighted objective, missing with face_selection.cpp. The
  formula divides by \<open>supp_total\<close>, by the number of sharp edges and by \<open>area_total\<close>:
  where one of them is 0 it has no value, and the objective is \<open>None\<close>.
\<close>

definition objective :: "hypothesis_graph \<Rightarrow> config \<Rightarrow> assignment \<Rightarrow> real option" where
  "objective H cfg a =
     (if supp_total H = 0 \<or> sharp_edges H = [] \<or> h_area_total H = 0 then None
      else Some (fit_weight cfg * fit_term H a
                 + complexity_weight cfg * complexity_term H a
                 + coverage_weight cfg * coverage_term H a))"

text \<open>
  Modelled from the spec: the formulation of section 4.3, missing with
  face_selection.cpp. One binary \<open>X f\<close> per face, one binary \<open>Z e\<close> per edge, one binary
  \<open>Y e\<close> per sharp edge; one manifold row per edge, one sharp-edge link per sharp edge,
  and, unless \<open>include_bbox_faces\<close> is set, one \<open>Forbidden\<close> row per bounding-box face.
\<close>

definition build_program :: "hypothesis_graph \<Rightarrow> config \<Rightarrow> binary_program" where
  "build_program H cfg =
     \<lparr>variables =
        map (\<lambda>f. (X f, Binary)) [0 ..< length (h_faces H)]
        @ map (\<lambda>e. (Z e, Binary)) [0 ..< length (h_edges H)]
        @ map (\<lambda>e. (Y e, Binary)) (sharp_edges H),
      constraints =
        map (\<lambda>e. Manifold e (e_incident (h_edges H ! e))) [0 ..< length (h_edges H)]
        @ map (\<lambda>e. Sharp_link e (incident_planes H e)) (sharp_edges H)
        @ (if include_bbox_faces cfg then []
           else map Forbidden
                  (filter (\<lambda>f. f_bbox (h_faces H ! f)) [0 ..< length (h_faces H)])),
      minimise = objective H cfg\<rparr>"

text \<open>
  Modelled from the spec: the values a variable of each kind of section 6.3 may take,
  missing with face_selection.cpp; a binary variable is 0 or 1.
\<close>

fun kind_ok :: "var_kind \<Rightarrow> int \<Rightarrow> bool" where
  "kind_ok Binary n = (n = 0 \<or> n = 1)"
| "kind_ok Integer n = True"

text \<open>
  Modelled from the spec: the condition of the sharp-edge link, "exactly two faces are
  selected and they lie on different planes", missing with face_selection.cpp.
\<close>

definition two_on_different_planes :: "assignment \<Rightarrow> (nat \<times> nat) list \<Rightarrow> bool" where
  "two_on_different_planes a fps =
     (case filter (\<lambda>(f, p). a (X f) = 1) fps of
        [(f1, p1), (f2, p2)] \<Rightarrow> p1 \<noteq> p2
      | _ \<Rightarrow> False)"

text \<open>
  Modelled from the spec: when an assignment satisfies a constraint of section 4.3,
  missing with face_selection.cpp.
\<close>

fun holds :: "assignment \<Rightarrow> constraint \<Rightarrow> bool" where
  "holds a (Manifold e fs) = ((\<Sum>f\<leftarrow>fs. a (X f)) - 2 * a (Z e) = 0)"
| "holds a (Sharp_link e fps) = ((a (Y e) = 1) = two_on_different_planes a fps)"
| "holds a (Forbidden f) = (a (X f) = 0)"

text \<open>
  Modelled from the spec: when an assignment satisfies the program, missing with
  face_selection.cpp: every variable has a value of its kind and every constraint holds.
\<close>

definition feasible :: "binary_program \<Rightarrow> assignment \<Rightarrow> bool" where
  "feasible p a =
     (list_all (\<lambda>(v, k). kind_ok k (a v)) (variables p) \<and> list_all (holds a) (constraints p))"

text \<open>
  Modelled from the spec: the all-zero vector of section 4.3, "x = 0" with every \<open>z_e\<close>
  and \<open>y_e\<close> at 0.
\<close>

definition zero_assignment :: assignment where
  "zero_assignment = (\<lambda>v. 0)"

subsection \<open>Solving and output assembly\<close>

text \<open>Modelled from the spec: the error kinds of section 7, missing with face_selection.cpp.\<close>

datatype error_kind = InvalidInput | GeometryFailure | SolverError | EmptyResult

text \<open>
  Modelled from the spec: the output mesh of section 6.2, missing with face_selection.cpp:
  a vertex list in floating point (reals here) and a face list, each face an ordered list
  of indices into the vertex list.
\<close>

type_synonym point = "real \<times> real \<times> real"

record mesh =
  mesh_vertices :: "point list"
  mesh_faces :: "nat list list"

text \<open>Modelled from the spec: the empty mesh, missing with face_selection.cpp.\<close>

definition empty_mesh :: mesh where
  "empty_mesh = \<lparr>mesh_vertices = [], mesh_faces = []\<rparr>"

text \<open>
  Modelled from the spec: the diagnostics of section 6.2 (objective value, component
  terms, number of selected faces, solver status) with a message, missing with
  face_selection.cpp. Elapsed time is not modelled.
\<close>

record diagnostics =
  d_objective :: "real option"
  d_fit :: real
  d_complexity :: real
  d_coverage :: real
  d_selected :: nat
  d_status :: status
  d_message :: string

text \<open>
  Modelled from the spec: the position of a vertex in the vertex list, for section 6.2,
  "each face is an ordered list of vertex indices into the vertex list"; missing with
  face_selection.cpp.
\<close>

fun index_of :: "'a list \<Rightarrow> 'a \<Rightarrow> nat" where
  "index_of [] x = 0"
| "index_of (y # ys) x = (if x = y then 0 else Suc (index_of ys x))"

text \<open>
  Modelled from the spec: the conversion of an exact vertex to floating point (section
  4.3, output assembly), missing with face_selection.cpp.
\<close>

definition to_inexact :: "exact_point \<Rightarrow> point" where
  "to_inexact p = (case p of (x, y, z) \<Rightarrow> (of_rat x, of_rat y, of_rat z))"

text \<open>
  Modelled from the spec: the faces with \<open>x_f = 1\<close>, in the order of \<open>F\<close> (section 4.3),
  missing with face_selection.cpp.
\<close>

definition selected_faces :: "hypothesis_graph \<Rightarrow> assignment \<Rightarrow> nat list" where
  "selected_faces H a = filter (\<lambda>f. a (X f) = 1) [0 ..< length (h_faces H)]"

text \<open>
  Modelled from the spec: output assembly, missing with face_selection.cpp; section 4.3,
  "Walk F and emit a polyhedral mesh consisting of the faces with x_f = 1. Vertices are
  the exact vertices of those polygons converted to floating-point".
\<close>

definition assemble :: "hypothesis_graph \<Rightarrow> assignment \<Rightarrow> mesh" where
  "assemble H a =
     (let polys = map (\<lambda>f. map (\<lambda>v. h_vertices H ! v) (f_boundary (h_faces H ! f)))
                      (selected_faces H a);
          vs = remdups (concat polys)
      in \<lparr>mesh_vertices = map to_inexact vs, mesh_faces = map (map (index_of vs)) polys\<rparr>)"

text \<open>
  Modelled from the spec: the diagnostics of a run that ended with a given status and
  vector (section 6.2), missing with face_selection.cpp.
\<close>

definition diagnose ::
  "hypothesis_graph \<Rightarrow> config \<Rightarrow> status \<Rightarrow> assignment \<Rightarrow> string \<Rightarrow> diagnostics" where
  "diagnose H cfg st a msg =
     \<lparr>d_objective = objective H cfg a, d_fit = fit_term H a,
      d_complexity = complexity_term H a, d_coverage = coverage_term H a,
      d_selected = length (selected_faces H a), d_status = st, d_message = msg\<rparr>"

text \<open>
  Modelled from the spec: the solver of section 6.3 is an external collaborator, an
  argument here: from the program, the time limit and the gap it returns a status, a
  vector and an objective value.
\<close>

type_synonym solver = "binary_program \<Rightarrow> real \<Rightarrow> real \<Rightarrow> status \<times> assignment \<times> real"

text \<open>
  Modelled from the spec: the face selection step, missing with face_selection.cpp;
  section 4.3, "Hand the formulation to the external solver", "If the solver reports
  infeasibility (numerical), the core surfaces a diagnostic and returns the empty mesh",
  and section 7, a solver failure is the error \<open>SolverError\<close>.
\<close>

definition face_selection ::
  "solver \<Rightarrow> hypothesis_graph \<Rightarrow> config \<Rightarrow> error_kind + mesh \<times> diagnostics" where
  "face_selection solve_bip H cfg =
     (case solve_bip (build_program H cfg) (solver_time_limit_seconds cfg) (solver_gap cfg) of
        (st, a, v) \<Rightarrow>
          if st = Infeasible then
            Inr (empty_mesh,
                 diagnose H cfg Infeasible zero_assignment ''solver reported infeasibility'')
          else if st = Solver_error then Inl SolverError
          else Inr (assemble H a, diagnose H cfg st a []))"

subsection \<open>Example data\<close>

text \<open>
  The hypothesis graph of a closed tetrahedron with vertices \<open>(0,0,0)\<close>, \<open>(1,0,0)\<close>,
  \<open>(0,1,0)\<close> and \<open>(0,0,2)\<close>: four faces on four planes, six edges, each shared by two
  faces (the shape of scenario 4 in section 8 of the specification). The configuration
  \<open>complexity_only_config\<close> puts all the weight on complexity.
\<close>

definition tetrahedron :: hypothesis_graph where
  "tetrahedron =
     \<lparr>h_vertices = [(0, 0, 0), (1, 0, 0), (0, 1, 0), (0, 0, 2)],
      h_edges =
        [\<lparr>e_endpoints = (0, 1), e_incident = [0, 1]\<rparr>,
         \<lparr>e_endpoints = (0, 2), e_incident = [0, 2]\<rparr>,
         \<lparr>e_endpoints = (0, 3), e_incident = [1, 2]\<rparr>,
         \<lparr>e_endpoints = (1, 2), e_incident = [0, 3]\<rparr>,
         \<lparr>e_endpoints = (1, 3), e_incident = [1, 3]\<rparr>,
         \<lparr>e_endpoints = (2, 3), e_incident = [2, 3]\<rparr>],
      h_faces =
        [\<lparr>f_plane = 0, f_boundary = [0, 1, 2], f_supp = 50, f_conf = 1, f_area = 1 / 2,
          f_bbox = False\<rparr>,
         \<lparr>f_plane = 1, f_boundary = [0, 1, 3], f_supp = 50, f_conf = 1, f_area = 1,
          f_bbox = False\<rparr>,
         \<lparr>f_plane = 2, f_boundary = [0, 2, 3], f_supp = 50, f_conf = 1, f_area = 1,
          f_bbox = False\<rparr>,
         \<lparr>f_plane = 3, f_boundary = [1, 2, 3], f_supp = 50, f_conf = 1, f_area = 3 / 2,
          f_bbox = False\<rparr>],
      h_area_total = 4\<rparr>"

definition complexity_only_config :: config where
  "complexity_only_config =
     (default_config 1)\<lparr>fit_weight := 0, coverage_weight := 0, complexity_weight := 1\<rparr>"

definition all_selected :: assignment where
  "all_selected = (\<lambda>v. 1)"

definition reports_infeasible :: solver where
  "reports_infeasible p t g = (Infeasible, zero_assignment, 0)"

section \<open>Helper lemmas\<close>

subsection \<open>Helper lemmas on the camera\<close>

lemma stores_fieldOfView_doc: "stores_fieldOfView setFieldOfView_doc"
  by (simp add: stores_fieldOfView_def setFieldOfView_doc_def)

lemma stores_screenWidthAndHeight_doc: "stores_screenWidthAndHeight setScreenWidthAndHeight_doc"
  by (simp add: stores_screenWidthAndHeight_def setScreenWidthAndHeight_doc_def)

lemma aspectRatio_camera0: "aspectRatio camera0 = 3 / 2"
  by (simp add: aspectRatio_def camera0_def)

lemma sint_32_of_int:
  "- (2 ^ 31) \<le> t \<Longrightarrow> t < 2 ^ 31 \<Longrightarrow> sint (word_of_int t :: 32 word) = t"
  by (simp add: sint_sbintrunc' signed_take_bit_int_eq_self)

lemma cpp_trunc_of_int: "cpp_trunc (of_int k) = k"
  by (simp add: cpp_trunc_def)

subsection \<open>Helper lemmas on rounding\<close>

lemma round_half_even_of_int: "round_half_even (of_int k) = k"
  by (simp add: round_half_even_def)

lemma round_half_even_ge:
  assumes "of_int m \<le> q"
  shows "m \<le> round_half_even q"
proof -
  from assms have "m \<le> \<lfloor>q\<rfloor>"
    by (simp add: le_floor_iff)
  then show ?thesis
    by (simp add: round_half_even_def)
qed

lemma round_half_even_le:
  assumes "q \<le> of_int m"
  shows "round_half_even q \<le> m"
proof (cases "q = of_int \<lfloor>q\<rfloor>")
  case True
  with assms have "\<lfloor>q\<rfloor> \<le> m"
    by (simp add: floor_le_iff)
  moreover from True have "round_half_even q = \<lfloor>q\<rfloor>"
    by (simp add: round_half_even_def)
  ultimately show ?thesis by simp
next
  case False
  then have "of_int \<lfloor>q\<rfloor> < q"
    using of_int_floor_le [of q] by linarith
  with assms have "real_of_int \<lfloor>q\<rfloor> < of_int m"
    by linarith
  then have "\<lfloor>q\<rfloor> < m"
    by (simp only: of_int_less_iff)
  then show ?thesis
    by (simp add: round_half_even_def)
qed

lemma binary64_exponentI:
  assumes "2 powi e \<le> \<bar>x\<bar>" and "\<bar>x\<bar> < 2 powi (e + 1)" and "- 1022 \<le> e"
  shows "binary64_exponent x = e"
proof -
  have pos: "0 < \<bar>x\<bar>"
    using assms(1) by (smt (verit) zero_less_power_int)
  have p1: "(2::real) powr real_of_int e = 2 powi e"
    by (rule powr_real_of_int') simp_all
  have "(2::real) powr real_of_int (e + 1) = 2 powi (e + 1)"
    by (rule powr_real_of_int') simp_all
  then have p2: "(2::real) powr (real_of_int e + 1) = 2 powi (e + 1)"
    by (simp add: add.commute)
  have "2 powr real_of_int e \<le> \<bar>x\<bar> \<and> \<bar>x\<bar> < 2 powr (real_of_int e + 1)"
    using assms(1,2) by (simp only: p1 p2)
  then have "\<lfloor>log 2 \<bar>x\<bar>\<rfloor> = e"
    using pos floor_log_eq_powr_iff [of "\<bar>x\<bar>" 2 e] by simp
  with assms(3) show ?thesis
    by (simp add: binary64_exponent_def)
qed

text \<open>
  How a rounding is computed at a given input: \<open>e\<close> is the exponent of \<open>x\<close> and \<open>n\<close> the
  integer nearest to \<open>x\<close> in units of the spacing.
\<close>

lemma round_binary64_eval:
  assumes "2 powi e \<le> \<bar>x\<bar>" and "\<bar>x\<bar> < 2 powi (e + 1)" and "- 1022 \<le> e"
    and "round_half_even (x / 2 powi (e - 52)) = n"
    and "r = of_int n * 2 powi (e - 52)"
    and "\<bar>r\<bar> < 2 ^ 1024"
  shows "round_binary64 x = Some r"
proof -
  have "x \<noteq> 0"
    using assms(1) by (smt (verit) zero_less_power_int)
  moreover have "binary64_ulp x = 2 powi (e - 52)"
    by (simp add: binary64_ulp_def binary64_exponentI [OF assms(1-3)])
  ultimately show ?thesis
    using assms(4-6) by (simp add: round_binary64_def)
qed

text \<open>Every integer of magnitude below \<open>2 ^ 53\<close> is a double.\<close>

lemma round_binary64_of_int:
  assumes "\<bar>k\<bar> < 2 ^ 53"
  shows "round_binary64 (of_int k) = Some (of_int k)"
proof (cases "k = 0")
  case True
  then show ?thesis by (simp add: round_binary64_def)
next
  case False
  define e where "e = \<lfloor>log 2 \<bar>real_of_int k\<bar>\<rfloor>"
  have "1 \<le> \<bar>k\<bar>"
    using False by simp
  then have "real_of_int 1 \<le> real_of_int \<bar>k\<bar>"
    by (simp only: of_int_le_iff)
  then have k1: "1 \<le> \<bar>real_of_int k\<bar>"
    by simp
  then have e0: "0 \<le> e"
    by (simp add: e_def)
  have "real_of_int \<bar>k\<bar> < real_of_int (2 ^ 53)"
    using assms by (simp only: of_int_less_iff)
  then have k53: "\<bar>real_of_int k\<bar> < 2 ^ 53"
    by simp
  then have "\<bar>real_of_int k\<bar> < 2 powr 53"
    by simp
  then have "log 2 \<bar>real_of_int k\<bar> < 53"
    using k1 by (subst log_less_iff) simp_all
  then have e52: "e \<le> 52"
    by (simp add: e_def floor_le_iff)
  have ex: "binary64_exponent (of_int k) = e"
    using e0 by (simp add: binary64_exponent_def e_def)
  have ulp: "binary64_ulp (of_int k) = 1 / 2 ^ nat (52 - e)"
    using e52 by (simp add: binary64_ulp_def ex power_int_def field_simps)
  have "real_of_int k / binary64_ulp (of_int k) = of_int (k * 2 ^ nat (52 - e))"
    by (simp add: ulp)
  then have "round_half_even (real_of_int k / binary64_ulp (of_int k)) = k * 2 ^ nat (52 - e)"
    by (simp only: round_half_even_of_int)
  then have r: "of_int (round_half_even (real_of_int k / binary64_ulp (of_int k)))
                  * binary64_ulp (of_int k) = real_of_int k"
    by (simp add: ulp)
  have "\<bar>real_of_int k\<bar> < 2 ^ 1024"
    using k53 by (rule less_trans) simp
  with False r show ?thesis
    by (simp add: round_binary64_def Let_def)
qed

text \<open>Rounding does not bring a magnitude of \<open>2 ^ 53\<close> or more below \<open>2 ^ 53\<close>.\<close>

lemma round_binary64_large:
  assumes big: "2 ^ 53 \<le> \<bar>x\<bar>" and r: "round_binary64 x = Some r"
  shows "2 ^ 53 \<le> \<bar>r\<bar>"
proof -
  define e where "e = \<lfloor>log 2 \<bar>x\<bar>\<rfloor>"
  define u :: real where "u = 2 powi (e - 52)"
  define n where "n = round_half_even (x / u)"
  have pos: "0 < \<bar>x\<bar>"
    using big by (smt (verit) zero_less_power)
  have "(2::real) powr 53 \<le> \<bar>x\<bar>"
    using big by simp
  then have "53 \<le> log 2 \<bar>x\<bar>"
    using pos by (subst le_log_iff) simp_all
  then have e53: "53 \<le> e"
    by (simp add: e_def le_floor_iff)
  have "2 powr real_of_int e \<le> \<bar>x\<bar>"
    using pos floor_log_eq_powr_iff [of "\<bar>x\<bar>" 2 e] by (simp add: e_def)
  moreover have "(2::real) powr real_of_int e = 2 powi e"
    by (rule powr_real_of_int') simp_all
  ultimately have low: "2 powi e \<le> \<bar>x\<bar>"
    by simp
  have upos: "0 < u"
    by (simp add: u_def)
  have split: "(2::real) powi e = 2 ^ 52 * u"
    using power_int_add [of "2::real" 52 "e - 52"] by (simp add: u_def)
  have ex: "binary64_exponent x = e"
    using e53 by (simp add: binary64_exponent_def e_def)
  have ulp: "binary64_ulp x = u"
    by (simp add: binary64_ulp_def ex u_def)
  have x0: "x \<noteq> 0"
    using pos by simp
  from r x0 have rn: "r = of_int n * u"
    by (simp add: round_binary64_def ulp n_def Let_def split: if_splits)
  have "2 ^ 52 \<le> \<bar>n\<bar>"
  proof (cases "0 \<le> x")
    case True
    with low split have "2 ^ 52 * u \<le> x" by simp
    then have "real_of_int (2 ^ 52) \<le> x / u"
      using upos by (simp add: field_simps)
    then have "2 ^ 52 \<le> n"
      unfolding n_def by (rule round_half_even_ge)
    then show ?thesis by simp
  next
    case False
    with low split have "x \<le> - (2 ^ 52 * u)" by simp
    then have "x / u \<le> real_of_int (- (2 ^ 52))"
      using upos by (simp add: field_simps)
    then have "n \<le> - (2 ^ 52)"
      unfolding n_def by (rule round_half_even_le)
    then show ?thesis by simp
  qed
  then have "real_of_int (2 ^ 52) \<le> real_of_int \<bar>n\<bar>"
    by (simp only: of_int_le_iff)
  then have "2 ^ 52 \<le> \<bar>real_of_int n\<bar>"
    by simp
  then have "2 ^ 52 * u \<le> \<bar>real_of_int n\<bar> * u"
    using upos by simp
  then have "2 powi e \<le> \<bar>r\<bar>"
    using upos by (simp add: rn split abs_mult)
  moreover have "(2::real) ^ 53 \<le> 2 powi e"
    using e53 power_int_increasing [of 53 e "2::real"] by simp
  ultimately show ?thesis
    by linarith
qed

subsection \<open>Roundings at the example inputs\<close>

lemma is_binary64_3_2: "is_binary64 (3 / 2)"
  unfolding is_binary64_def
  by (rule round_binary64_eval [where e = 0 and n = 6755399441055744])
    (simp_all add: round_half_even_def)

lemma mul_100_3_2: "mul_binary64 100 (3 / 2) = Some 150"
  using round_binary64_of_int [of 150] by (simp add: mul_binary64_def)

lemma is_binary64_double_4_3: "is_binary64 double_4_3"
  unfolding is_binary64_def double_4_3_def
  by (rule round_binary64_eval [where e = 0 and n = 6004799503160661])
    (simp_all add: round_half_even_def)

lemma mul_100_double_4_3: "mul_binary64 100 double_4_3 = Some (2345624805922133 / 2 ^ 44)"
  unfolding mul_binary64_def double_4_3_def
  by (rule round_binary64_eval [where e = 7 and n = 4691249611844266])
    (simp_all add: round_half_even_def)

lemma cpp_trunc_product_4_3: "cpp_trunc (2345624805922133 / 2 ^ 44) = 133"
  by (simp add: cpp_trunc_def)

lemma round_133_100: "round_binary64 (133 / 100) = Some (748723438050345 / 2 ^ 49)"
  by (rule round_binary64_eval [where e = 0 and n = 5989787504402760])
    (simp_all add: round_half_even_def)

lemma is_binary64_double_0_35: "is_binary64 double_0_35"
  unfolding is_binary64_def double_0_35_def
  by (rule round_binary64_eval [where e = "- 2" and n = 6305039478318694])
    (simp_all add: round_half_even_def)

lemma mul_100_double_0_35: "mul_binary64 100 double_0_35 = Some 35"
  unfolding mul_binary64_def double_0_35_def
  by (rule round_binary64_eval [where e = 5 and n = 4925812092436480])
    (simp_all add: round_half_even_def)

lemma round_35_100: "round_binary64 (35 / 100) = Some double_0_35"
  unfolding double_0_35_def
  by (rule round_binary64_eval [where e = "- 2" and n = 6305039478318694])
    (simp_all add: round_half_even_def)

lemma is_binary64_double_0_35_next: "is_binary64 double_0_35_next"
  unfolding is_binary64_def double_0_35_next_def
  by (rule round_binary64_eval [where e = "- 2" and n = 6305039478318695])
    (simp_all add: round_half_even_def)

lemma mul_100_double_0_35_next: "mul_binary64 100 double_0_35_next = Some 35"
  unfolding mul_binary64_def double_0_35_next_def
  by (rule round_binary64_eval [where e = 5 and n = 4925812092436480])
    (simp_all add: round_half_even_def)

lemma product_0_35_not_integer: "100 * double_0_35 \<notin> \<int>"
proof
  assume "100 * double_0_35 \<in> \<int>"
  then obtain k :: int where "100 * double_0_35 = real_of_int k"
    by (auto simp: Ints_def)
  then have "real_of_int (k * 2251799813685248) = real_of_int 78812993478983675"
    by (simp add: double_0_35_def field_simps)
  then have "k * 2251799813685248 = 78812993478983675"
    by (simp only: of_int_eq_iff)
  then have "even (78812993478983675 :: int)"
    by (metis even_mult_iff even_numeral)
  then show False by simp
qed

lemma is_binary64_1e8: "is_binary64 100000000"
  using round_binary64_of_int [of 100000000] by (simp add: is_binary64_def)

lemma mul_100_1e8: "mul_binary64 100 100000000 = Some 10000000000"
  using round_binary64_of_int [of 10000000000] by (simp add: mul_binary64_def)

subsection \<open>Helper lemmas on the binary program\<close>

lemma zero_assignment_holds: "holds zero_assignment c"
  by (cases c) (simp_all add: zero_assignment_def two_on_different_planes_def)

lemma zero_assignment_feasible: "feasible (build_program H cfg) zero_assignment"
  by (simp add: feasible_def list_all_iff zero_assignment_holds)
    (auto simp: build_program_def zero_assignment_def)

lemma feasible_sharp_binary:
  assumes "feasible (build_program H cfg) a" and "e \<in> set (sharp_edges H)"
  shows "a (Y e) = 0 \<or> a (Y e) = 1"
proof -
  have "(Y e, Binary) \<in> set (variables (build_program H cfg))"
    using assms(2) by (simp add: build_program_def)
  with assms(1) have "kind_ok Binary (a (Y e))"
    by (auto simp: feasible_def list_all_iff)
  then show ?thesis by simp
qed

lemma complexity_term_nonneg:
  assumes "feasible (build_program H cfg) a"
  shows "0 \<le> complexity_term H a"
proof -
  have "0 \<le> real_of_int (a (Y e))" if "e \<in> set (sharp_edges H)" for e
    using feasible_sharp_binary [OF assms that] by auto
  then have "0 \<le> (\<Sum>e\<leftarrow>sharp_edges H. real_of_int (a (Y e)))"
    by (intro sum_list_nonneg) auto
  then show ?thesis
    by (simp add: complexity_term_def)
qed

lemma complexity_term_zero: "complexity_term H zero_assignment = 0"
  by (simp add: complexity_term_def zero_assignment_def)

lemma complexity_only_weights:
  assumes "valid_config cfg" and "complexity_weight cfg = 1"
  shows "fit_weight cfg = 0" and "coverage_weight cfg = 0"
  using assms by (simp_all add: valid_config_def)

lemma valid_complexity_only_config: "valid_config complexity_only_config"
  by (simp add: valid_config_def complexity_only_config_def default_config_def)

lemma sharp_edges_tetrahedron: "sharp_edges tetrahedron = [0, 1, 2, 3, 4, 5]"
  by (simp add: sharp_edges_def is_sharp_def incident_planes_def tetrahedron_def)

lemma all_selected_feasible:
  "feasible (build_program tetrahedron complexity_only_config) all_selected"
  by (simp add: feasible_def build_program_def sharp_edges_tetrahedron)
    (simp add: tetrahedron_def incident_planes_def all_selected_def
      two_on_different_planes_def complexity_only_config_def default_config_def)

lemma all_selected_objective:
  "minimise (build_program tetrahedron complexity_only_config) all_selected = Some 1"
  by (simp add: build_program_def objective_def complexity_term_def sharp_edges_tetrahedron
      supp_total_def)
    (simp add: tetrahedron_def all_selected_def complexity_only_config_def default_config_def)

section \<open>Properties of the camera\<close>

text \<open>
  Claim C8. Round trip of the horizontal field of view, over exact real arithmetic: for
  every camera whose \<open>aspectRatio()\<close> is positive and every \<open>hfov\<close> strictly between
  \<open>-pi\<close> and \<open>pi\<close>, after \<open>setHorizontalFieldOfView(hfov)\<close> a call of
  \<open>horizontalFieldOfView()\<close> returns \<open>hfov\<close>. The callee \<open>setFieldOfView\<close> is any function
  that stores the field of view and leaves the screen size alone.
\<close>

theorem horizontalFieldOfView_roundtrip:
  assumes sf: "stores_fieldOfView setFieldOfView"
    and ar: "0 < aspectRatio c"
    and lo: "- pi < hfov" and hi: "hfov < pi"
  shows "horizontalFieldOfView (setHorizontalFieldOfView setFieldOfView c hfov) = hfov"
proof -
  define v where "v = 2 * arctan (tan (hfov / 2) / aspectRatio c)"
  define c' where "c' = setFieldOfView c v"
  have fov: "fieldOfView c' = v"
    using sf by (simp add: stores_fieldOfView_def fieldOfView_def c'_def)
  have asp: "aspectRatio c' = aspectRatio c"
    using sf by (simp add: stores_fieldOfView_def aspectRatio_def c'_def)
  have "tan (v / 2) * aspectRatio c = tan (hfov / 2)"
    using ar by (simp add: v_def tan_arctan)
  moreover have "arctan (tan (hfov / 2)) = hfov / 2"
    using lo hi by (intro arctan_tan) simp_all
  ultimately have "horizontalFieldOfView c' = hfov"
    by (simp add: horizontalFieldOfView_def fov asp)
  then show ?thesis
    by (simp add: setHorizontalFieldOfView_def c'_def v_def)
qed

text \<open>The round trip at the default camera (aspect ratio 3/2) and \<open>hfov = pi / 3\<close>.\<close>

theorem horizontalFieldOfView_roundtrip_witness:
  "stores_fieldOfView setFieldOfView_doc \<and> 0 < aspectRatio camera0
   \<and> - pi < pi / 3 \<and> pi / 3 < pi
   \<and> horizontalFieldOfView (setHorizontalFieldOfView setFieldOfView_doc camera0 (pi / 3)) = pi / 3"
proof -
  have a: "0 < aspectRatio camera0" by (simp add: aspectRatio_camera0)
  have l: "- pi < pi / 3" by simp
  have h: "pi / 3 < pi" by simp
  show ?thesis
    using horizontalFieldOfView_roundtrip [OF stores_fieldOfView_doc a l h]
      stores_fieldOfView_doc a l h by simp
qed

text \<open>
  Claim C9, as amended. For every double \<open>a\<close> whose double product \<open>100.0 * a\<close> is a
  finite double \<open>p\<close> with a truncation that fits in a 32-bit \<open>int\<close>, and for a
  \<open>setScreenWidthAndHeight\<close> that stores its two arguments: \<open>setAspectRatio(a)\<close> leaves
  \<open>screenHeight() = 100\<close> and \<open>screenWidth()\<close> equal to \<open>p\<close> truncated towards zero,
  \<open>aspectRatio()\<close> then returns the double quotient of that integer by 100, and it
  returns \<open>a\<close> itself whenever \<open>100 * a\<close> is an integer.
\<close>

theorem setAspectRatio_truncates:
  assumes st: "stores_screenWidthAndHeight setScreenWidthAndHeight"
    and dbl: "is_binary64 a"
    and prod: "mul_binary64 100 a = Some p"
    and lo: "- (2 ^ 31) \<le> cpp_trunc p"
    and hi: "cpp_trunc p < 2 ^ 31"
  shows "\<exists>c'. setAspectRatio setScreenWidthAndHeight c a = Some c'
           \<and> sint (screenHeight c') = 100
           \<and> sint (screenWidth c') = cpp_trunc p
           \<and> aspectRatio_binary64 c' = round_binary64 (real_of_int (cpp_trunc p) / 100)
           \<and> (100 * a \<in> \<int> \<longrightarrow> aspectRatio_binary64 c' = Some a)"
proof -
  define w :: cpp_int where "w = word_of_int (cpp_trunc p)"
  define c' where "c' = setScreenWidthAndHeight c w 100"
  have run: "setAspectRatio setScreenWidthAndHeight c a = Some c'"
    using prod lo hi by (simp add: setAspectRatio_def int_of_qreal_def c'_def w_def)
  have width: "sint (screenWidth c') = cpp_trunc p"
    using st lo hi
    by (simp add: stores_screenWidthAndHeight_def screenWidth_def c'_def w_def sint_32_of_int)
  have height: "sint (screenHeight c') = 100"
    using st by (simp add: stores_screenWidthAndHeight_def screenHeight_def c'_def)
  have ratio: "aspectRatio_binary64 c' = round_binary64 (real_of_int (cpp_trunc p) / 100)"
    using width height
    by (simp add: aspectRatio_binary64_def div_binary64_def screenWidth_def screenHeight_def)
  have trip: "aspectRatio_binary64 c' = Some a" if "100 * a \<in> \<int>"
  proof -
    from that obtain k :: int where k: "100 * a = real_of_int k"
      by (auto simp: Ints_def)
    with prod have rk: "round_binary64 (real_of_int k) = Some p"
      by (simp add: mul_binary64_def)
    have small: "\<bar>k\<bar> < 2 ^ 53"
    proof (rule ccontr)
      assume "\<not> \<bar>k\<bar> < 2 ^ 53"
      then have "2 ^ 53 \<le> \<bar>k\<bar>"
        by simp
      then have "real_of_int (2 ^ 53) \<le> real_of_int \<bar>k\<bar>"
        by (simp only: of_int_le_iff)
      then have "2 ^ 53 \<le> \<bar>real_of_int k\<bar>"
        by simp
      from round_binary64_large [OF this rk] have "2 ^ 53 \<le> p \<or> p \<le> - (2 ^ 53)"
        by linarith
      then show False
      proof
        assume "2 ^ 53 \<le> p"
        then have "real_of_int (2 ^ 53) \<le> p" by simp
        then have "2 ^ 53 \<le> \<lfloor>p\<rfloor>" by (simp only: le_floor_iff)
        moreover have "cpp_trunc p = \<lfloor>p\<rfloor>"
          using \<open>2 ^ 53 \<le> p\<close> by (simp add: cpp_trunc_def)
        ultimately show False using hi by simp
      next
        assume "p \<le> - (2 ^ 53)"
        then have "p \<le> real_of_int (- (2 ^ 53))" by simp
        then have "\<lceil>p\<rceil> \<le> - (2 ^ 53)" by (simp only: ceiling_le_iff)
        moreover have "cpp_trunc p = \<lceil>p\<rceil>"
          using \<open>p \<le> - (2 ^ 53)\<close> by (simp add: cpp_trunc_def)
        ultimately show False using lo by simp
      qed
    qed
    from round_binary64_of_int [OF small] rk have "p = real_of_int k"
      by simp
    then have "real_of_int (cpp_trunc p) / 100 = a"
      using k by (simp add: cpp_trunc_of_int)
    with ratio dbl show ?thesis
      by (simp add: is_binary64_def)
  qed
  show ?thesis
    using run height width ratio trip by blast
qed

text \<open>
  On the default camera. At \<open>a = 3/2\<close> the product is 150, an integer: the width becomes
  150 and \<open>aspectRatio()\<close> returns \<open>3/2\<close>. At the double nearest to \<open>4/3\<close> the product
  truncates to 133 and \<open>aspectRatio()\<close> returns the double nearest to 1.33, which is not
  \<open>a\<close>.
\<close>

theorem setAspectRatio_truncates_witness:
  "stores_screenWidthAndHeight setScreenWidthAndHeight_doc
   \<and> is_binary64 (3 / 2) \<and> mul_binary64 100 (3 / 2) = Some 150
   \<and> - (2 ^ 31) \<le> cpp_trunc 150 \<and> cpp_trunc 150 < 2 ^ 31 \<and> 100 * (3 / 2 :: real) \<in> \<int>
   \<and> (\<exists>c'. setAspectRatio setScreenWidthAndHeight_doc camera0 (3 / 2) = Some c'
          \<and> sint (screenHeight c') = 100 \<and> sint (screenWidth c') = 150
          \<and> aspectRatio_binary64 c' = Some (3 / 2))
   \<and> is_binary64 double_4_3
   \<and> (\<exists>c'. setAspectRatio setScreenWidthAndHeight_doc camera0 double_4_3 = Some c'
          \<and> sint (screenHeight c') = 100 \<and> sint (screenWidth c') = 133
          \<and> aspectRatio_binary64 c' = Some (748723438050345 / 2 ^ 49)
          \<and> aspectRatio_binary64 c' \<noteq> Some double_4_3)"
proof -
  have t150: "cpp_trunc 150 = 150"
    by (simp add: cpp_trunc_def)
  have lo1: "- (2 ^ 31) \<le> cpp_trunc 150" and hi1: "cpp_trunc 150 < 2 ^ 31"
    by (simp_all add: t150)
  have int1: "100 * (3 / 2 :: real) \<in> \<int>"
    by simp
  from setAspectRatio_truncates
    [OF stores_screenWidthAndHeight_doc is_binary64_3_2 mul_100_3_2 lo1 hi1, of camera0]
  obtain c1 where c1: "setAspectRatio setScreenWidthAndHeight_doc camera0 (3 / 2) = Some c1"
    "sint (screenHeight c1) = 100" "sint (screenWidth c1) = cpp_trunc 150"
    "100 * (3 / 2 :: real) \<in> \<int> \<longrightarrow> aspectRatio_binary64 c1 = Some (3 / 2)"
    by blast
  from c1(3) have w1: "sint (screenWidth c1) = 150"
    by (simp add: t150)
  from c1(4) int1 have r1: "aspectRatio_binary64 c1 = Some (3 / 2)"
    by blast
  have lo2: "- (2 ^ 31) \<le> cpp_trunc (2345624805922133 / 2 ^ 44)"
    and hi2: "cpp_trunc (2345624805922133 / 2 ^ 44) < 2 ^ 31"
    by (simp_all only: cpp_trunc_product_4_3) simp_all
  from setAspectRatio_truncates
    [OF stores_screenWidthAndHeight_doc is_binary64_double_4_3 mul_100_double_4_3 lo2 hi2,
      of camera0]
  obtain c2 where c2: "setAspectRatio setScreenWidthAndHeight_doc camera0 double_4_3 = Some c2"
    "sint (screenHeight c2) = 100"
    "sint (screenWidth c2) = cpp_trunc (2345624805922133 / 2 ^ 44)"
    "aspectRatio_binary64 c2
       = round_binary64 (real_of_int (cpp_trunc (2345624805922133 / 2 ^ 44)) / 100)"
    by blast
  from c2(3) have w2: "sint (screenWidth c2) = 133"
    by (simp only: cpp_trunc_product_4_3)
  from c2(4) have r2: "aspectRatio_binary64 c2 = Some (748723438050345 / 2 ^ 49)"
    by (simp only: cpp_trunc_product_4_3) (simp add: round_133_100)
  have "(748723438050345 / 2 ^ 49 :: real) \<noteq> double_4_3"
    by (simp add: double_4_3_def)
  with r2 have n2: "aspectRatio_binary64 c2 \<noteq> Some double_4_3"
    by simp
  show ?thesis
    using stores_screenWidthAndHeight_doc is_binary64_3_2 mul_100_3_2 lo1 hi1 int1
      c1(1,2) w1 r1 is_binary64_double_4_3 c2(1,2) w2 r2 n2
    by blast
qed

text \<open>
  Claim C9 as stated ranges over every aspect value and says that the round trip holds
  exactly when \<open>100 * a\<close> is an integer. Neither survives on the default camera.
  \<^item> At \<open>a = 100000000\<close> the product is the integer \<open>10 ^ 10\<close>, which no 32-bit \<open>int\<close>
    holds: \<open>int(100.0 * aspect)\<close> has no defined value, and even the largest \<open>int\<close> as
    width gives a ratio below \<open>a\<close>.
  \<^item> At the double nearest to 0.35, \<open>100 * a\<close> is not an integer, but the double product
    rounds to 35: the width is 35 and \<open>aspectRatio()\<close> returns \<open>a\<close>.
  \<^item> At the next double the double product is 35 again, an integer, and
    \<open>aspectRatio()\<close> returns the double nearest to 0.35, which is not \<open>a\<close>.
\<close>

theorem setAspectRatio_roundtrip_counterexample:
  "is_binary64 100000000
   \<and> setAspectRatio setScreenWidthAndHeight_doc camera0 100000000 = None
   \<and> (100 * 100000000 :: real) \<in> \<int>
   \<and> real_of_int (2 ^ 31 - 1) / 100 < 100000000
   \<and> is_binary64 double_0_35
   \<and> 100 * double_0_35 \<notin> \<int>
   \<and> setAspectRatio setScreenWidthAndHeight_doc camera0 double_0_35
       = Some (setScreenWidthAndHeight_doc camera0 35 100)
   \<and> aspectRatio_binary64 (setScreenWidthAndHeight_doc camera0 35 100) = Some double_0_35
   \<and> is_binary64 double_0_35_next
   \<and> mul_binary64 100 double_0_35_next = Some 35
   \<and> setAspectRatio setScreenWidthAndHeight_doc camera0 double_0_35_next
       = Some (setScreenWidthAndHeight_doc camera0 35 100)
   \<and> double_0_35_next \<noteq> double_0_35"
proof -
  have over: "setAspectRatio setScreenWidthAndHeight_doc camera0 100000000 = None"
    by (simp add: setAspectRatio_def mul_100_1e8 int_of_qreal_def cpp_trunc_def)
  have t35: "int_of_qreal 35 = Some 35"
    by (simp add: int_of_qreal_def cpp_trunc_def)
  have s35: "setAspectRatio setScreenWidthAndHeight_doc camera0 double_0_35
               = Some (setScreenWidthAndHeight_doc camera0 35 100)"
    by (simp add: setAspectRatio_def mul_100_double_0_35 t35)
  have n35: "setAspectRatio setScreenWidthAndHeight_doc camera0 double_0_35_next
               = Some (setScreenWidthAndHeight_doc camera0 35 100)"
    by (simp add: setAspectRatio_def mul_100_double_0_35_next t35)
  have r35: "aspectRatio_binary64 (setScreenWidthAndHeight_doc camera0 35 100)
               = Some double_0_35"
    using round_35_100
    by (simp add: aspectRatio_binary64_def div_binary64_def setScreenWidthAndHeight_doc_def)
  have ne: "double_0_35_next \<noteq> double_0_35"
    by (simp add: double_0_35_next_def double_0_35_def)
  have big: "real_of_int (2 ^ 31 - 1) / 100 < 100000000"
    by simp
  have int10: "(100 * 100000000 :: real) \<in> \<int>"
    by simp
  show ?thesis
    using is_binary64_1e8 over int10 big is_binary64_double_0_35 product_0_35_not_integer
      s35 r35 is_binary64_double_0_35_next mul_100_double_0_35_next n35 ne
    by blast
qed

text \<open>
  Claim C10. Frame of the two clipping coefficient setters: \<open>setZNearCoefficient(coef)\<close>
  makes \<open>zNearCoefficient()\<close> return \<open>coef\<close> and clears
  \<open>projectionMatrixIsUpToDate_\<close>; putting the old near coefficient and the old flag back
  gives the camera it started from, so no other member has changed. The same holds of
  \<open>setZClippingCoefficient(coef)\<close> and \<open>zClippingCoefficient()\<close>.
\<close>

theorem clipping_coefficient_setters_frame:
  "zNearCoefficient (setZNearCoefficient c coef) = coef
   \<and> \<not> projectionMatrixIsUpToDate_f (setZNearCoefficient c coef)
   \<and> (setZNearCoefficient c coef)\<lparr>zNearCoef_f := zNearCoef_f c,
        projectionMatrixIsUpToDate_f := projectionMatrixIsUpToDate_f c\<rparr> = c
   \<and> zClippingCoefficient (setZClippingCoefficient c coef) = coef
   \<and> \<not> projectionMatrixIsUpToDate_f (setZClippingCoefficient c coef)
   \<and> (setZClippingCoefficient c coef)\<lparr>zClippingCoef_f := zClippingCoef_f c,
        projectionMatrixIsUpToDate_f := projectionMatrixIsUpToDate_f c\<rparr> = c"
  by (simp add: setZNearCoefficient_def setZClippingCoefficient_def zNearCoefficient_def
      zClippingCoefficient_def)

section \<open>Properties of the face selection program\<close>

text \<open>
  Claim C2. For every hypothesis graph and configuration, the binary program is feasible:
  the assignment that gives 0 to every \<open>x_f\<close>, \<open>z_e\<close> and \<open>y_e\<close> has values of the right
  kind and satisfies every constraint. When the solver nevertheless reports
  infeasibility, face selection returns the empty mesh with a diagnostic that carries the
  status and a message.
\<close>

theorem all_zero_selection_feasible:
  "feasible (build_program H cfg) zero_assignment
   \<and> (fst (solve_bip (build_program H cfg) (solver_time_limit_seconds cfg) (solver_gap cfg))
        = Infeasible
      \<longrightarrow> (\<exists>d. face_selection solve_bip H cfg = Inr (empty_mesh, d)
              \<and> d_status d = Infeasible \<and> d_message d \<noteq> []))"
proof (intro conjI impI)
  show "feasible (build_program H cfg) zero_assignment"
    by (rule zero_assignment_feasible)
next
  let ?d = "diagnose H cfg Infeasible zero_assignment ''solver reported infeasibility''"
  assume "fst (solve_bip (build_program H cfg) (solver_time_limit_seconds cfg) (solver_gap cfg))
            = Infeasible"
  then have "face_selection solve_bip H cfg = Inr (empty_mesh, ?d)"
    by (cases "solve_bip (build_program H cfg) (solver_time_limit_seconds cfg) (solver_gap cfg)")
      (simp add: face_selection_def)
  moreover have "d_status ?d = Infeasible" and "d_message ?d \<noteq> []"
    by (simp_all add: diagnose_def)
  ultimately show "\<exists>d. face_selection solve_bip H cfg = Inr (empty_mesh, d)
                    \<and> d_status d = Infeasible \<and> d_message d \<noteq> []"
    by blast
qed

text \<open>On the tetrahedron, with a solver that reports infeasibility.\<close>

theorem all_zero_selection_feasible_witness:
  "feasible (build_program tetrahedron (default_config 1)) zero_assignment
   \<and> fst (reports_infeasible (build_program tetrahedron (default_config 1))
        (solver_time_limit_seconds (default_config 1)) (solver_gap (default_config 1)))
      = Infeasible
   \<and> (\<exists>d. face_selection reports_infeasible tetrahedron (default_config 1)
             = Inr (empty_mesh, d)
          \<and> d_status d = Infeasible \<and> d_message d \<noteq> [])"
  using all_zero_selection_feasible [of tetrahedron "default_config 1" reports_infeasible]
  by (simp add: reports_infeasible_def)

text \<open>
  Claim C7. For every hypothesis graph, when a valid configuration sets
  \<open>complexity_weight = 1\<close> (the other two weights are then 0), the all-zero assignment is
  an optimal solution of the binary program: it is feasible, its objective value is 0,
  and every feasible assignment has an objective value of at least 0. The objective has a
  value exactly when its three normalisers are not 0, whatever the assignment.
\<close>

theorem complexity_only_empty_optimal:
  assumes "valid_config cfg" and "complexity_weight cfg = 1"
    and "feasible (build_program H cfg) a"
    and "minimise (build_program H cfg) a = Some v"
  shows "fit_weight cfg = 0 \<and> coverage_weight cfg = 0
         \<and> feasible (build_program H cfg) zero_assignment
         \<and> minimise (build_program H cfg) zero_assignment = Some 0 \<and> 0 \<le> v"
proof -
  note w = assms(2) complexity_only_weights [OF assms(1,2)]
  from assms(4) have defined: "\<not> (supp_total H = 0 \<or> sharp_edges H = [] \<or> h_area_total H = 0)"
    by (auto simp: build_program_def objective_def split: if_splits)
  with w assms(4) have "v = complexity_term H a"
    by (simp add: build_program_def objective_def)
  with complexity_term_nonneg [OF assms(3)] have "0 \<le> v" by simp
  moreover from defined w
  have "minimise (build_program H cfg) zero_assignment = Some 0"
    by (simp add: build_program_def objective_def complexity_term_zero)
  ultimately show ?thesis
    using w by (simp add: zero_assignment_feasible)
qed

text \<open>
  On the tetrahedron: selecting all four faces is feasible and costs 1 (six sharp edges
  out of six), the empty selection costs 0.
\<close>

theorem complexity_only_empty_optimal_witness:
  "valid_config complexity_only_config \<and> complexity_weight complexity_only_config = 1
   \<and> feasible (build_program tetrahedron complexity_only_config) all_selected
   \<and> minimise (build_program tetrahedron complexity_only_config) all_selected = Some 1
   \<and> feasible (build_program tetrahedron complexity_only_config) zero_assignment
   \<and> minimise (build_program tetrahedron complexity_only_config) zero_assignment = Some 0
   \<and> (0 :: real) \<le> 1"
proof -
  have w: "complexity_weight complexity_only_config = 1"
    by (simp add: complexity_only_config_def)
  from complexity_only_empty_optimal
    [OF valid_complexity_only_config w all_selected_feasible all_selected_objective]
  show ?thesis
    using valid_complexity_only_config w all_selected_feasible all_selected_objective by simp
qed

end
